theory Spec2Isabelle
  imports Complex_Main
begin

section \<open>JSON values and the subset of the Amazon States Language the workflow uses\<close>

text \<open>
  The consistency checker (class \<open>ConsistencyChecker\<close>) builds a Step Functions state
  machine as a JavaScript object literal and serialises it with \<open>JSON.stringify\<close>.
  The object is embedded as a value of the datatypes below; its behaviour is given by an
  interpreter for the constructs it uses: Task (Lambda invoke), Parallel, Choice, Succeed.
\<close>

datatype json =
    JNull
  | JBool bool
  | JNum int
  | JStr string
  | JArr "json list"
  | JObj "(string \<times> json) list"

text \<open>A reference path \<open>$.a.b\<close> is the list of its keys; \<open>$\<close> is the empty list.\<close>

type_synonym path = "string list"

fun lookup_path :: "path \<Rightarrow> json \<Rightarrow> json option" where
  "lookup_path [] j = Some j"
| "lookup_path (k # ks) (JObj fs) =
     (case map_of fs k of None \<Rightarrow> None | Some v \<Rightarrow> lookup_path ks v)"
| "lookup_path (k # ks) _ = None"

text \<open>
  A \<open>Parameters\<close> template: a constant, a field whose key ends in \<open>.$\<close> (its value
  is a path into the state's input; the key is stored without the suffix), or an object.
\<close>

datatype template =
    TConst json
  | TPath path
  | TObj "(string \<times> template) list"

fun resolve :: "template \<Rightarrow> json \<Rightarrow> json option"
  and resolve_fields :: "(string \<times> template) list \<Rightarrow> json \<Rightarrow> (string \<times> json) list option" where
  "resolve (TConst j) inp = Some j"
| "resolve (TPath p) inp = lookup_path p inp"
| "resolve (TObj fs) inp =
     (case resolve_fields fs inp of None \<Rightarrow> None | Some gs \<Rightarrow> Some (JObj gs))"
| "resolve_fields [] inp = Some []"
| "resolve_fields (kt # fs) inp =
     (case resolve (snd kt) inp of
        None \<Rightarrow> None
      | Some v \<Rightarrow>
          (case resolve_fields fs inp of
             None \<Rightarrow> None
           | Some gs \<Rightarrow> Some ((fst kt, v) # gs)))"

datatype transition = Next string | End

datatype choice_rule =
  BooleanEquals (Variable: path) (Expected: bool) (Target: string)

datatype state =
    Task (Resource: string) (Parameters: template) (TimeoutSeconds: "nat option")
         (Transition: transition)
  | Parallel (Branches: "machine list") (Transition: transition)
  | Choice (Choices: "choice_rule list") (Default: "string option")
  | Succeed
and machine =
  Machine (StartAt: string) (States: "(string \<times> state) list")

subsection \<open>Executions\<close>

datatype error =
    States_Timeout
  | States_TaskFailed string
  | States_ParameterPathFailure
  | States_Runtime
  | States_NoChoiceMatched

text \<open>
  The Lambda functions' code is a placeholder archive, so what a function returns is a
  parameter of the model: for a function ARN and a payload, either a result together with
  the time the invocation took (in milliseconds), or the name of an error the invocation
  raised before any timeout of its task.
\<close>

datatype response = Returned nat json | Raised string

type_synonym lambdas = "string \<Rightarrow> json \<Rightarrow> response"

text \<open>The execution history: states entered with their input, and Lambda invocations.\<close>

datatype event =
    StateEntered string json
  | LambdaInvoked string json

datatype outcome =
    Succeeded string json
  | Failed string error
  | OutOfFuel

text \<open>
  A Task whose resource is the Lambda invoke integration, as every Task of the workflow
  is (the interpreter knows no other resource): the resolved parameters carry
  \<open>FunctionName\<close> and \<open>Payload\<close>; the result has the function's result under
  \<open>Payload\<close> (the integration's other metadata fields are left out: no path of the
  workflow reads them). A result later than \<open>TimeoutSeconds\<close> is \<open>States.Timeout\<close>.
\<close>

definition run_task ::
  "lambdas \<Rightarrow> template \<Rightarrow> nat option \<Rightarrow> json \<Rightarrow> event list \<times> (error + json)" where
  "run_task lam params tmo inp =
     (case resolve params inp of
        None \<Rightarrow> ([], Inl States_ParameterPathFailure)
      | Some p \<Rightarrow>
          (case (lookup_path [''FunctionName''] p, lookup_path [''Payload''] p) of
             (Some (JStr fn), Some pl) \<Rightarrow>
               (case lam fn pl of
                  Raised e \<Rightarrow> ([LambdaInvoked fn pl], Inl (States_TaskFailed e))
                | Returned ms r \<Rightarrow>
                    (case tmo of
                       None \<Rightarrow> ([LambdaInvoked fn pl], Inr (JObj [(''Payload'', r)]))
                     | Some t \<Rightarrow>
                         if t * 1000 < ms
                         then ([LambdaInvoked fn pl], Inl States_Timeout)
                         else ([LambdaInvoked fn pl], Inr (JObj [(''Payload'', r)]))))
           | _ \<Rightarrow> ([], Inl States_Runtime)))"

text \<open>
  Choice rules are tried in order. A \<open>Variable\<close> path that does not resolve is a runtime
  error; a value that is not the expected boolean does not match.
\<close>

fun choose_next :: "choice_rule list \<Rightarrow> string option \<Rightarrow> json \<Rightarrow> error + string" where
  "choose_next [] dflt inp = (case dflt of None \<Rightarrow> Inl States_NoChoiceMatched | Some d \<Rightarrow> Inr d)"
| "choose_next (BooleanEquals p b nx # rs) dflt inp =
     (case lookup_path p inp of
        None \<Rightarrow> Inl States_Runtime
      | Some v \<Rightarrow> if v = JBool b then Inr nx else choose_next rs dflt inp)"

text \<open>
  A Parallel state succeeds when every branch does; its output is the array of the branch
  outputs. One failed branch fails the state. When several branches fail, the service
  reports the one that failed first in time; the interpreter has no clock across branches
  and reports the first in branch order. Nothing below depends on which of several failed
  branches is reported: the statements say that the execution fails in the branch of a
  region that failed.
\<close>

fun collect :: "outcome list \<Rightarrow> outcome + json list" where
  "collect [] = Inr []"
| "collect (Succeeded s j # os) =
     (case collect os of Inl f \<Rightarrow> Inl f | Inr js \<Rightarrow> Inr (j # js))"
| "collect (f # os) = Inl f"

text \<open>
  The interpreter. A state with neither \<open>Catch\<close> nor \<open>Retry\<close> that fails ends the
  execution as failed. Every transition costs one unit of fuel.
\<close>

fun exec :: "lambdas \<Rightarrow> nat \<Rightarrow> machine \<Rightarrow> string \<Rightarrow> json \<Rightarrow> event list \<times> outcome" where
  "exec lam 0 m name inp = ([], OutOfFuel)"
| "exec lam (Suc n) m name inp =
     (case map_of (States m) name of
        None \<Rightarrow> ([], Failed name States_Runtime)
      | Some Succeed \<Rightarrow> ([StateEntered name inp], Succeeded name inp)
      | Some (Task res params tmo tr) \<Rightarrow>
          (case run_task lam params tmo inp of
             (evs, Inl e) \<Rightarrow> (StateEntered name inp # evs, Failed name e)
           | (evs, Inr out) \<Rightarrow>
               (case tr of
                  End \<Rightarrow> (StateEntered name inp # evs, Succeeded name out)
                | Next nx \<Rightarrow>
                    (case exec lam n m nx out of
                       (evs', r) \<Rightarrow> (StateEntered name inp # evs @ evs', r))))
      | Some (Choice rules dflt) \<Rightarrow>
          (case choose_next rules dflt inp of
             Inl e \<Rightarrow> ([StateEntered name inp], Failed name e)
           | Inr nx \<Rightarrow>
               (case exec lam n m nx inp of
                  (evs', r) \<Rightarrow> (StateEntered name inp # evs', r)))
      | Some (Parallel bs tr) \<Rightarrow>
          (let rs = map (\<lambda>b. exec lam n b (StartAt b) inp) bs;
               evs = StateEntered name inp # concat (map fst rs)
           in case collect (map snd rs) of
                Inl f \<Rightarrow> (evs, f)
              | Inr outs \<Rightarrow>
                  (case tr of
                     End \<Rightarrow> (evs, Succeeded name (JArr outs))
                   | Next nx \<Rightarrow>
                       (case exec lam n m nx (JArr outs) of
                          (evs', r) \<Rightarrow> (evs @ evs', r)))))"


section \<open>The ConsistencyChecker construct\<close>

datatype AwsProvider = AwsProvider (provider_alias: string)

record ElasticacheReplicationGroup =
  replicationGroupId :: string
  configurationEndpointAddress :: string

text \<open>
  The props. A JavaScript \<open>Map\<close> is an association list read with \<open>map_of\<close>
  (\<open>Map.get\<close> gives \<open>undefined\<close>, here \<open>None\<close>, for a missing key).
\<close>

record ConsistencyCheckerProps =
  providers :: "(string \<times> AwsProvider) list"
  regions :: "string list"
  primaryRegion :: string
  elastiCacheClusters :: "(string \<times> ElasticacheReplicationGroup) list"
  snapshotBucketArn :: string
  kinesisStreamArns :: "(string \<times> string) list"
  environment :: string

text \<open>
  An attribute of a resource that is only known at deployment (\<open>role.arn\<close>,
  \<open>function.arn\<close>) is a token naming the construct and the attribute.
\<close>

definition attr :: "string \<Rightarrow> string \<Rightarrow> string" where
  "attr cid a = ''${'' @ cid @ ''.'' @ a @ ''}''"

definition driftDetectorFunction_arn :: string where
  "driftDetectorFunction_arn = attr ''drift-detector'' ''arn''"

definition stateCorrectorFunction_arn :: string where
  "stateCorrectorFunction_arn = attr ''state-corrector'' ''arn''"

text \<open>\<open>region.replace(/-/g, '')\<close>: every hyphen removed.\<close>

definition strip_hyphens :: "string \<Rightarrow> string" where
  "strip_hyphens region = filter (\<lambda>c. c \<noteq> CHR ''-'') region"

definition branch_name :: "string \<Rightarrow> string" where
  "branch_name region = ''CheckRegion'' @ strip_hyphens region"

text \<open>One branch of \<open>CompareRegions\<close>: \<open>props.regions.map(region => ...)\<close>.\<close>

definition region_branch :: "string \<Rightarrow> machine" where
  "region_branch region =
     Machine (branch_name region)
       [(branch_name region,
         Task ''arn:aws:states:::lambda:invoke''
           (TObj [(''FunctionName'', TConst (JStr driftDetectorFunction_arn)),
                  (''Payload'', TObj [(''region'', TConst (JStr region)),
                                      (''action'', TConst (JStr ''compare''))])])
           (Some 5)
           End)]"

definition stateMachineDefinition :: "ConsistencyCheckerProps \<Rightarrow> machine" where
  "stateMachineDefinition props =
     Machine ''CompareRegions''
       [(''CompareRegions'',
         Parallel (map region_branch (regions props)) (Next ''AnalyzeDrift'')),
        (''AnalyzeDrift'',
         Task ''arn:aws:states:::lambda:invoke''
           (TObj [(''FunctionName'', TConst (JStr driftDetectorFunction_arn)),
                  (''Payload'', TObj [(''action'', TConst (JStr ''analyze'')),
                                      (''results'', TPath [])])])
           None
           (Next ''DriftDetected?'')),
        (''DriftDetected?'',
         Choice [BooleanEquals [''Payload'', ''driftDetected''] True ''CorrectDrift'']
           (Some ''Success'')),
        (''CorrectDrift'',
         Task ''arn:aws:states:::lambda:invoke''
           (TObj [(''FunctionName'', TConst (JStr stateCorrectorFunction_arn)),
                  (''Payload'',
                   TObj [(''driftRegions'', TPath [''Payload'', ''driftRegions'']),
                         (''canonicalState'', TPath [''Payload'', ''canonicalState''])])])
           (Some 10)
           End),
        (''Success'', Succeed)]"

text \<open>
  One execution of the workflow, started by the schedule with the event \<open>inp\<close>.
\<close>

definition run_cycle ::
  "lambdas \<Rightarrow> nat \<Rightarrow> ConsistencyCheckerProps \<Rightarrow> json \<Rightarrow> event list \<times> outcome" where
  "run_cycle lam fuel props inp =
     exec lam fuel (stateMachineDefinition props)
       (StartAt (stateMachineDefinition props)) inp"

subsection \<open>The resources the constructor creates\<close>

text \<open>
  An environment variable is a string; where the source writes \<open>JSON.stringify(v)\<close>
  the value \<open>v\<close> is kept (\<open>EnvJson\<close>), and likewise for the policy documents.
\<close>

datatype env_value = EnvString string | EnvJson json

datatype resource =
    IamRole (construct_id: string) (provider: "AwsProvider option")
      (namePrefix: string) (assumeRolePolicy: json)
  | IamRolePolicy (construct_id: string) (provider: "AwsProvider option")
      (policy_role: string) (policy: json)
  | LambdaFunction (construct_id: string) (provider: "AwsProvider option")
      (functionName: string) (function_role: string) (handler: string) (runtime: string)
      (timeout: nat) (memorySize: nat) (variables: "(string \<times> env_value) list")
      (filename: string) (dependsOn: "ElasticacheReplicationGroup list")
  | SfnStateMachine (construct_id: string) (provider: "AwsProvider option")
      (machine_name: string) (roleArn: string) (machine_definition: machine)
  | CloudwatchEventRule (construct_id: string) (provider: "AwsProvider option")
      (rule_name: string) (scheduleExpression: string) (rule_state: string)
  | CloudwatchEventTarget (construct_id: string) (provider: "AwsProvider option")
      (target_rule: string) (target_arn: string) (roleArn: string)

datatype js_error = TypeError string

text \<open>\<open>s.split(':')\<close>; the array always has at least one element, so \<open>pop()\<close> is its last.\<close>

fun split_on :: "char \<Rightarrow> string \<Rightarrow> string list" where
  "split_on c [] = [[]]"
| "split_on c (x # xs) =
     (if x = c then [] # split_on c xs
      else (case split_on c xs of
              [] \<Rightarrow> [[x]]
            | w # ws \<Rightarrow> (x # w) # ws))"

definition assume_role_policy :: "string \<Rightarrow> json" where
  "assume_role_policy service =
     JObj [(''Version'', JStr ''2012-10-17''),
           (''Statement'',
            JArr [JObj [(''Action'', JStr ''sts:AssumeRole''),
                        (''Principal'', JObj [(''Service'', JStr service)]),
                        (''Effect'', JStr ''Allow'')]])]"

definition drift_detector_policy :: "ConsistencyCheckerProps \<Rightarrow> json" where
  "drift_detector_policy props =
     JObj [(''Version'', JStr ''2012-10-17''),
           (''Statement'',
            JArr [JObj [(''Effect'', JStr ''Allow''),
                        (''Action'', JArr [JStr ''elasticache:DescribeReplicationGroups'',
                                           JStr ''elasticache:DescribeCacheClusters'']),
                        (''Resource'', JStr ''*'')],
                  JObj [(''Effect'', JStr ''Allow''),
                        (''Action'', JArr [JStr ''s3:GetObject'', JStr ''s3:ListBucket'']),
                        (''Resource'', JArr [JStr (snapshotBucketArn props),
                                             JStr (snapshotBucketArn props @ ''/*'')])],
                  JObj [(''Effect'', JStr ''Allow''),
                        (''Action'', JArr [JStr ''kinesis:PutRecord'', JStr ''kinesis:PutRecords'']),
                        (''Resource'', JArr (map (JStr \<circ> snd) (kinesisStreamArns props)))],
                  JObj [(''Effect'', JStr ''Allow''),
                        (''Action'', JArr [JStr ''logs:CreateLogGroup'',
                                           JStr ''logs:CreateLogStream'',
                                           JStr ''logs:PutLogEvents'']),
                        (''Resource'', JStr ''arn:aws:logs:*:*:*'')]])]"

definition step_functions_policy :: json where
  "step_functions_policy =
     JObj [(''Version'', JStr ''2012-10-17''),
           (''Statement'',
            JArr [JObj [(''Effect'', JStr ''Allow''),
                        (''Action'', JArr [JStr ''lambda:InvokeFunction'']),
                        (''Resource'', JArr [JStr driftDetectorFunction_arn,
                                             JStr stateCorrectorFunction_arn])]])]"

definition driftDetectorFunction ::
  "ConsistencyCheckerProps \<Rightarrow> AwsProvider option \<Rightarrow> ElasticacheReplicationGroup \<Rightarrow> resource" where
  "driftDetectorFunction props primaryProvider firstCluster =
     LambdaFunction ''drift-detector'' primaryProvider
       (''drift-detector-'' @ environment props)
       (attr ''drift-detector-role'' ''arn'')
       ''index.handler'' ''nodejs20.x'' 60 3008
       [(''REGIONS'', EnvJson (JArr (map JStr (regions props)))),
        (''ELASTICACHE_ENDPOINT'', EnvString (configurationEndpointAddress firstCluster)),
        (''SNAPSHOT_BUCKET'', EnvString (last (split_on CHR '':'' (snapshotBucketArn props)))),
        (''DETECTION_DEADLINE_MS'', EnvString ''3000''),
        (''CORRECTION_DEADLINE_MS'', EnvString ''8000'')]
       ''../../../lib/placeholder.zip''
       (map snd (elastiCacheClusters props))"

definition stateCorrectorFunction ::
  "ConsistencyCheckerProps \<Rightarrow> AwsProvider option \<Rightarrow> resource" where
  "stateCorrectorFunction props primaryProvider =
     LambdaFunction ''state-corrector'' primaryProvider
       (''state-corrector-'' @ environment props)
       (attr ''drift-detector-role'' ''arn'')
       ''index.handler'' ''nodejs20.x'' 60 3008
       [(''KINESIS_STREAMS'',
         EnvJson (JObj (map (\<lambda>kv. (fst kv, JStr (snd kv))) (kinesisStreamArns props)))),
        (''SNAPSHOT_BUCKET'', EnvString (last (split_on CHR '':'' (snapshotBucketArn props)))),
        (''PROPAGATION_DEADLINE_MS'', EnvString ''8000'')]
       ''../../../lib/placeholder.zip''
       []"

definition eventRule :: "ConsistencyCheckerProps \<Rightarrow> AwsProvider option \<Rightarrow> resource" where
  "eventRule props primaryProvider =
     CloudwatchEventRule ''consistency-check-rule'' primaryProvider
       (''location-consistency-check-'' @ environment props)
       ''rate(1 minute)''
       ''ENABLED''"

text \<open>
  The constructor. \<open>props.regions[0]\<close> of an empty array is \<open>undefined\<close>, for which
  \<open>Map.get\<close> gives \<open>undefined\<close>, as it does for a region without a cluster; reading
  \<open>configurationEndpointAddress\<close> of it throws.
\<close>

definition ConsistencyChecker :: "ConsistencyCheckerProps \<Rightarrow> js_error + resource list" where
  "ConsistencyChecker props =
     (let primaryProvider = map_of (providers props) (primaryRegion props)
      in case (case regions props of
                 [] \<Rightarrow> None
               | r0 # rest \<Rightarrow> map_of (elastiCacheClusters props) r0) of
           None \<Rightarrow>
             Inl (TypeError ''Cannot read properties of undefined'')
         | Some firstCluster \<Rightarrow>
             Inr [IamRole ''drift-detector-role'' primaryProvider
                    (''drift-detector-role-'' @ environment props @ ''-'')
                    (assume_role_policy ''lambda.amazonaws.com''),
                  IamRolePolicy ''drift-detector-policy'' primaryProvider
                    (attr ''drift-detector-role'' ''id'')
                    (drift_detector_policy props),
                  driftDetectorFunction props primaryProvider firstCluster,
                  stateCorrectorFunction props primaryProvider,
                  IamRole ''step-functions-role'' primaryProvider
                    (''consistency-checker-sf-role-'' @ environment props @ ''-'')
                    (assume_role_policy ''states.amazonaws.com''),
                  IamRolePolicy ''step-functions-policy'' primaryProvider
                    (attr ''step-functions-role'' ''id'')
                    step_functions_policy,
                  SfnStateMachine ''consistency-state-machine'' primaryProvider
                    (''location-consistency-checker-'' @ environment props)
                    (attr ''step-functions-role'' ''arn'')
                    (stateMachineDefinition props),
                  eventRule props primaryProvider,
                  CloudwatchEventTarget ''consistency-check-target'' primaryProvider
                    (attr ''consistency-check-rule'' ''name'')
                    (attr ''consistency-state-machine'' ''arn'')
                    (attr ''step-functions-role'' ''arn'')])"

text \<open>The snapshot schedule of the \<open>CorrectionSystem\<close> construct.\<close>

definition snapshotRule :: "string \<Rightarrow> AwsProvider option \<Rightarrow> resource" where
  "snapshotRule env prov =
     CloudwatchEventRule ''snapshot-rule'' prov
       (''location-snapshot-schedule-'' @ env)
       ''rate(1 hour)''
       ''ENABLED''"

subsection \<open>Schedule expressions\<close>

text \<open>
  A rate expression is \<open>rate(value unit)\<close>: a positive whole number and one of
  \<open>minute\<close>, \<open>hour\<close>, \<open>day\<close>, singular for the value 1 and plural otherwise. Its
  period in seconds:
\<close>

definition digit_value :: "char \<Rightarrow> nat option" where
  "digit_value c =
     map_of [(CHR ''0'', 0), (CHR ''1'', 1), (CHR ''2'', 2), (CHR ''3'', 3), (CHR ''4'', 4),
             (CHR ''5'', 5), (CHR ''6'', 6), (CHR ''7'', 7), (CHR ''8'', 8), (CHR ''9'', 9)] c"

fun parse_digits :: "nat \<Rightarrow> string \<Rightarrow> nat \<times> string" where
  "parse_digits acc [] = (acc, [])"
| "parse_digits acc (c # cs) =
     (case digit_value c of
        None \<Rightarrow> (acc, c # cs)
      | Some d \<Rightarrow> parse_digits (10 * acc + d) cs)"

definition unit_seconds :: "nat \<Rightarrow> string \<Rightarrow> nat option" where
  "unit_seconds v u =
     (if v = 1 then
        (if u = ''minute'' then Some 60
         else if u = ''hour'' then Some 3600
         else if u = ''day'' then Some 86400
         else None)
      else
        (if u = ''minutes'' then Some 60
         else if u = ''hours'' then Some 3600
         else if u = ''days'' then Some 86400
         else None))"

definition rate_seconds :: "string \<Rightarrow> nat option" where
  "rate_seconds s =
     (if take 5 s = ''rate('' \<and> 6 < length s \<and> last s = CHR '')'' then
        (case parse_digits 0 (butlast (drop 5 s)) of
           (v, rest) \<Rightarrow>
             (if v = 0 then None
              else (case rest of
                      [] \<Rightarrow> None
                    | c # u \<Rightarrow>
                        if c = CHR '' '' then
                          (case unit_seconds v u of
                             None \<Rightarrow> None
                           | Some k \<Rightarrow> Some (v * k))
                        else None)))
      else None)"

section \<open>The drift analyzer and the propagation channel\<close>

text \<open>
  The handlers of the two Lambda functions are deployed from a placeholder archive
  (\<open>filename: '../../../lib/placeholder.zip'\<close>); their code is not part of the sources.
  The analysis and the effect of a correction are therefore modelled from the
  specification of the engine, definition by definition.
\<close>

text \<open>
  Modelled from the spec: the records of the data model (section 3), which the missing
  handlers would exchange. Coordinates are real numbers; the cycle identifier of a report,
  which the scheduler attaches, is left out; \<open>confident\<close> is the zero-confidence flag of
  step 1 of the analysis.
\<close>

record LocationSample =
  driverID :: string
  latitude :: real
  longitude :: real
  observedAtMillis :: int
  sample_region :: string

record RegionSnapshot =
  snapshot_region :: string
  fetchedAtMillis :: int
  samples :: "LocationSample list"
  fetchError :: "string option"

datatype severity = NoDrift | Minor | Major

record DriftReport =
  sampleSize :: nat
  driftedDriverCount :: nat
  driftPercentage :: real
  maxDriftMeters :: real
  report_severity :: severity
  affectedRegions :: "string list"
  confident :: bool

text \<open>
  Modelled from the spec: degrees to radians, for the distance below; the handler that
  computes distances is missing.
\<close>

definition radians :: "real \<Rightarrow> real" where
  "radians deg = deg * pi / 180"

text \<open>
  Modelled from the spec: the great-circle (haversine) distance in meters between two
  positions given in degrees, on a sphere of radius 6371 km; the handler that computes it
  is missing. Over the reals.
\<close>

definition haversine :: "LocationSample \<Rightarrow> LocationSample \<Rightarrow> real" where
  "haversine a b =
     (let dphi = radians (latitude b - latitude a);
          dlam = radians (longitude b - longitude a);
          h = (sin (dphi / 2))\<^sup>2
              + cos (radians (latitude a)) * cos (radians (latitude b)) * (sin (dlam / 2))\<^sup>2
      in 2 * 6371000 * arcsin (sqrt h))"

text \<open>
  Modelled from the spec: the fixed drift threshold of 100 meters (step 3); the handler
  that holds the constant is missing.
\<close>

definition drift_threshold_m :: real where
  "drift_threshold_m = 100"

text \<open>
  Modelled from the spec: "every pair" of a sequence, each unordered pair once; the
  handler that enumerates the pairs is missing.
\<close>

fun pairs :: "'a list \<Rightarrow> ('a \<times> 'a) list" where
  "pairs [] = []"
| "pairs (x # xs) = map (Pair x) xs @ pairs xs"

text \<open>
  Modelled from the spec: the samples a snapshot holds for one driver; the handler is
  missing.
\<close>

definition samples_of :: "string \<Rightarrow> RegionSnapshot \<Rightarrow> LocationSample list" where
  "samples_of d s = filter (\<lambda>p. driverID p = d) (samples s)"

text \<open>
  Modelled from the spec: every pair of regional positions of one driver, each position
  with the region that reported it (step 2 of the analysis; the handler is missing).
\<close>

definition driver_pairs ::
  "string \<Rightarrow> RegionSnapshot list \<Rightarrow> ((string \<times> LocationSample) \<times> (string \<times> LocationSample)) list" where
  "driver_pairs d ss =
     concat (map (\<lambda>st.
        concat (map (\<lambda>a. map (\<lambda>b. ((snapshot_region (fst st), a), (snapshot_region (snd st), b)))
                               (samples_of d (snd st)))
                    (samples_of d (fst st))))
       (pairs ss))"

text \<open>
  Modelled from the spec: the distance between the two positions of a pair (step 2; the
  handler is missing).
\<close>

definition pair_distance ::
  "(string \<times> LocationSample) \<times> (string \<times> LocationSample) \<Rightarrow> real" where
  "pair_distance pq = haversine (snd (fst pq)) (snd (snd pq))"

text \<open>
  Modelled from the spec: the maximum of a list of distances, 0 for no distance (steps 3
  and 6; the handler is missing).
\<close>

definition max_distance :: "real list \<Rightarrow> real" where
  "max_distance ds = fold max ds 0"

text \<open>
  Modelled from the spec: the drivers present in at least two usable snapshots (step 2;
  the handler is missing).
\<close>

definition compared_drivers :: "RegionSnapshot list \<Rightarrow> string list" where
  "compared_drivers ss =
     filter (\<lambda>d. 2 \<le> length (filter (\<lambda>s. samples_of d s \<noteq> []) ss))
       (remdups (concat (map (\<lambda>s. map driverID (samples s)) ss)))"

text \<open>
  Modelled from the spec: a driver is drifted if its maximum pairwise distance exceeds the
  threshold (step 3; the handler is missing).
\<close>

definition drifted :: "RegionSnapshot list \<Rightarrow> string \<Rightarrow> bool" where
  "drifted ss d = (drift_threshold_m < max_distance (map pair_distance (driver_pairs d ss)))"

text \<open>
  Modelled from the spec: the drifted pairs, whose regions are the affected regions (step
  6; the handler is missing).
\<close>

definition drifted_pairs ::
  "RegionSnapshot list \<Rightarrow> ((string \<times> LocationSample) \<times> (string \<times> LocationSample)) list" where
  "drifted_pairs ss =
     filter (\<lambda>pq. drift_threshold_m < pair_distance pq)
       (concat (map (\<lambda>d. driver_pairs d ss) (compared_drivers ss)))"

text \<open>
  Modelled from the spec: the severity classification, evaluated in order (step 5; the
  handler is missing): None without drifted drivers, Minor with at most two affected
  regions, Major with three or more.
\<close>

definition classify :: "nat \<Rightarrow> nat \<Rightarrow> severity" where
  "classify drifted_count region_count =
     (if drifted_count = 0 then NoDrift
      else if region_count \<le> 2 then Minor
      else Major)"

text \<open>
  Modelled from the spec: \<open>DriftAnalyzer.analyze\<close> (section 4.2, steps 1 to 6); the
  handler of the drift-detector function, which would hold it, is missing.
\<close>

definition analyze :: "RegionSnapshot list \<Rightarrow> DriftReport" where
  "analyze snapshots =
     (let usable = filter (\<lambda>s. fetchError s = None) snapshots
      in if length usable < 2 then
           \<lparr> sampleSize = 0, driftedDriverCount = 0, driftPercentage = 0,
             maxDriftMeters = 0, report_severity = NoDrift, affectedRegions = [],
             confident = False \<rparr>
         else
           (let drivers = compared_drivers usable;
                n_drifted = length (filter (drifted usable) drivers);
                regs = remdups (concat (map (\<lambda>pq. [fst (fst pq), fst (snd pq)])
                                             (drifted_pairs usable)))
            in \<lparr> sampleSize = length drivers,
                 driftedDriverCount = n_drifted,
                 driftPercentage = real n_drifted / real (length drivers) * 100,
                 maxDriftMeters =
                   max_distance (map pair_distance
                     (concat (map (\<lambda>d. driver_pairs d usable) drivers))),
                 report_severity = classify n_drifted (length regs),
                 affectedRegions = regs,
                 confident = True \<rparr>))"


subsection \<open>Propagation\<close>

text \<open>
  Modelled from the spec: the correction plan and the outcome of applying it (sections 3
  and 4.3); the handler of the state-corrector function is missing.
\<close>

record CorrectionPlan =
  cycleID :: string
  targetRegions :: "string list"
  records :: "LocationSample list"

record apply_outcome =
  applied :: nat
  failed :: "string list"

text \<open>
  Modelled from the spec: a regional cache holds one record per driver, and the caches
  are indexed by region; the cache updater is not part of the sources.
\<close>

type_synonym cache = "string \<rightharpoonup> LocationSample"

type_synonym caches = "string \<Rightarrow> cache"

text \<open>
  Modelled from the spec: the collaborator's write is last-write-wins by record timestamp
  (section 6, propagation channel); the cache updater is not part of the sources. A record
  replaces the stored one when the stored one is strictly older, the condition
  \<open>attribute_not_exists(driverId) OR #ts < :newTimestamp\<close> of the conditional write
  shown in docs/COMPONENTS.md; otherwise the stale update is ignored.
\<close>

definition lww :: "LocationSample option \<Rightarrow> LocationSample \<Rightarrow> LocationSample option" where
  "lww old r =
     (case old of
        None \<Rightarrow> Some r
      | Some q \<Rightarrow> if observedAtMillis q < observedAtMillis r then Some r else Some q)"

text \<open>
  Modelled from the spec: the write of one record into one regional cache, under the
  driver's identifier; the cache updater is not part of the sources.
\<close>

definition write_record :: "LocationSample \<Rightarrow> cache \<Rightarrow> cache" where
  "write_record r c = c(driverID r := lww (c (driverID r)) r)"

text \<open>
  Modelled from the spec: \<open>Propagator.Publish\<close> answers ack or error; \<open>acked\<close> says
  which records the channel acknowledges. An acknowledged record reaches the cache of every
  target region, a refused one is recorded as failed for its driver (section 4.3,
  \<open>apply\<close>; the handler of the state-corrector function is missing).
\<close>

definition publish ::
  "(LocationSample \<Rightarrow> bool) \<Rightarrow> string list \<Rightarrow> LocationSample
     \<Rightarrow> caches \<times> apply_outcome \<Rightarrow> caches \<times> apply_outcome" where
  "publish acked targets r st =
     (if acked r then
        (\<lambda>reg. if reg \<in> set targets then write_record r (fst st reg) else fst st reg,
         (snd st)\<lparr>applied := applied (snd st) + 1\<rparr>)
      else (fst st, (snd st)\<lparr>failed := failed (snd st) @ [driverID r]\<rparr>))"

text \<open>
  Modelled from the spec: \<open>Corrector.apply\<close>, which delegates each record of the plan
  to the Propagator, in order (section 4.3); the handler of the state-corrector function
  is missing.
\<close>

definition apply_plan ::
  "(LocationSample \<Rightarrow> bool) \<Rightarrow> CorrectionPlan \<Rightarrow> caches \<Rightarrow> caches \<times> apply_outcome" where
  "apply_plan acked plan st =
     fold (publish acked (targetRegions plan)) (records plan)
       (st, \<lparr>applied = 0, failed = []\<rparr>)"

section \<open>Vocabulary for statements about executions\<close>

text \<open>The payloads the three tasks send, as their \<open>Parameters\<close> resolve.\<close>

definition compare_payload :: "string \<Rightarrow> json" where
  "compare_payload region = JObj [(''region'', JStr region), (''action'', JStr ''compare'')]"

definition analyze_payload :: "json \<Rightarrow> json" where
  "analyze_payload results = JObj [(''action'', JStr ''analyze''), (''results'', results)]"

definition correct_payload :: "json \<Rightarrow> json \<Rightarrow> json" where
  "correct_payload dr cs = JObj [(''driftRegions'', dr), (''canonicalState'', cs)]"

text \<open>What one branch of \<open>CompareRegions\<close> records and how it ends.\<close>

definition branch_events :: "json \<Rightarrow> string \<Rightarrow> event list" where
  "branch_events inp region =
     [StateEntered (branch_name region) inp,
      LambdaInvoked driftDetectorFunction_arn (compare_payload region)]"

definition branch_outcome :: "lambdas \<Rightarrow> string \<Rightarrow> outcome" where
  "branch_outcome lam region =
     (case lam driftDetectorFunction_arn (compare_payload region) of
        Raised e \<Rightarrow> Failed (branch_name region) (States_TaskFailed e)
      | Returned ms r \<Rightarrow>
          if 5000 < ms then Failed (branch_name region) States_Timeout
          else Succeeded (branch_name region) (JObj [(''Payload'', r)]))"

text \<open>The compare invocation for a region returned, and within five seconds.\<close>

definition sampled_in_time :: "lambdas \<Rightarrow> string \<Rightarrow> bool" where
  "sampled_in_time lam region =
     (case lam driftDetectorFunction_arn (compare_payload region) of
        Raised e \<Rightarrow> False
      | Returned ms r \<Rightarrow> ms \<le> 5000)"

text \<open>Readers of an execution history.\<close>

fun state_names :: "event list \<Rightarrow> string list" where
  "state_names [] = []"
| "state_names (StateEntered name d # es) = name # state_names es"
| "state_names (LambdaInvoked fn p # es) = state_names es"

fun inputs_of :: "string \<Rightarrow> event list \<Rightarrow> json list" where
  "inputs_of name [] = []"
| "inputs_of name (StateEntered name' d # es) =
     (if name' = name then d # inputs_of name es else inputs_of name es)"
| "inputs_of name (LambdaInvoked fn p # es) = inputs_of name es"

fun payloads_to :: "string \<Rightarrow> event list \<Rightarrow> json list" where
  "payloads_to fn [] = []"
| "payloads_to fn (StateEntered name d # es) = payloads_to fn es"
| "payloads_to fn (LambdaInvoked fn' p # es) =
     (if fn' = fn then p # payloads_to fn es else payloads_to fn es)"

fun outcome_state :: "outcome \<Rightarrow> string" where
  "outcome_state (Succeeded name j) = name"
| "outcome_state (Failed name e) = name"
| "outcome_state OutOfFuel = []"

text \<open>
  The longest path of the workflow makes four transitions; \<open>n\<close> is any fuel beyond that.
\<close>

definition cycle_events ::
  "lambdas \<Rightarrow> nat \<Rightarrow> ConsistencyCheckerProps \<Rightarrow> json \<Rightarrow> event list" where
  "cycle_events lam n props inp = fst (run_cycle lam (Suc (Suc (Suc (Suc n)))) props inp)"

definition cycle_outcome ::
  "lambdas \<Rightarrow> nat \<Rightarrow> ConsistencyCheckerProps \<Rightarrow> json \<Rightarrow> outcome" where
  "cycle_outcome lam n props inp = snd (run_cycle lam (Suc (Suc (Suc (Suc n)))) props inp)"

text \<open>All usable regions report the same position for every driver they share.\<close>

definition identical_positions :: "RegionSnapshot list \<Rightarrow> bool" where
  "identical_positions ss =
     (\<forall>s\<in>set ss. \<forall>t\<in>set ss. \<forall>a\<in>set (samples s). \<forall>b\<in>set (samples t).
        driverID a = driverID b \<longrightarrow> latitude a = latitude b \<and> longitude a = longitude b)"

section \<open>Example deployments and executions\<close>

definition example_props :: "string list \<Rightarrow> ConsistencyCheckerProps" where
  "example_props rs =
     \<lparr> providers = map (\<lambda>r. (r, AwsProvider r)) rs,
       regions = rs,
       primaryRegion = ''us-east-1'',
       elastiCacheClusters =
         map (\<lambda>r. (r, \<lparr> replicationGroupId = ''location-cache-'' @ r,
                          configurationEndpointAddress = ''cache.'' @ r @ ''.example'' \<rparr>)) rs,
       snapshotBucketArn = ''arn:aws:s3:::location-snapshots-dev-0a1b2c3d'',
       kinesisStreamArns =
         map (\<lambda>r. (r, ''arn:aws:kinesis:'' @ r @ '':000000000000:stream/location-updates'')) rs,
       environment = ''dev'' \<rparr>"

definition two_regions :: ConsistencyCheckerProps where
  "two_regions = example_props [''us-east-1'', ''us-west-2'']"

definition three_regions :: ConsistencyCheckerProps where
  "three_regions = example_props [''us-east-1'', ''us-west-2'', ''eu-west-1'']"

text \<open>
  Lambda behaviour for the examples: the compare action answers in 50 ms, except for the
  region \<open>slow\<close>, where it takes 6 s; the analyze action answers \<open>analysis\<close>; the
  state corrector answers \<open>correction\<close>.
\<close>

definition example_lambdas :: "string \<Rightarrow> json \<Rightarrow> response \<Rightarrow> lambdas" where
  "example_lambdas slow analysis correction fn pl =
     (if fn = stateCorrectorFunction_arn then correction
      else if lookup_path [''action''] pl = Some (JStr ''analyze'') then Returned 200 analysis
      else if lookup_path [''region''] pl = Some (JStr slow) then Returned 6000 (JObj [])
      else Returned 50 (JObj [(''samples'', JArr [])]))"

definition two_region_drift :: json where
  "two_region_drift =
     JObj [(''driftDetected'', JBool True),
           (''driftRegions'', JArr [JStr ''us-east-1'', JStr ''us-west-2'']),
           (''canonicalState'', JObj [(''timestamp'', JNum 1698765432000)])]"

definition drift_without_snapshot :: json where
  "drift_without_snapshot =
     JObj [(''driftDetected'', JBool True),
           (''driftRegions'',
            JArr [JStr ''us-east-1'', JStr ''us-west-2'', JStr ''eu-west-1'']),
           (''canonicalState'', JNull)]"

definition no_drift :: json where
  "no_drift = JObj [(''driftDetected'', JBool False)]"

definition sample_at :: "string \<Rightarrow> string \<Rightarrow> real \<Rightarrow> real \<Rightarrow> int \<Rightarrow> LocationSample" where
  "sample_at d reg lat lon t =
     \<lparr> driverID = d, latitude = lat, longitude = lon, observedAtMillis = t,
       sample_region = reg \<rparr>"

definition agreeing_snapshots :: "RegionSnapshot list" where
  "agreeing_snapshots =
     [\<lparr> snapshot_region = ''us-east-1'', fetchedAtMillis = 1000,
        samples = [sample_at ''D1'' ''us-east-1'' 37.7749 (-122.4194) 900], fetchError = None \<rparr>,
      \<lparr> snapshot_region = ''us-west-2'', fetchedAtMillis = 1000,
        samples = [sample_at ''D1'' ''us-west-2'' 37.7749 (-122.4194) 950], fetchError = None \<rparr>,
      \<lparr> snapshot_region = ''eu-west-1'', fetchedAtMillis = 1000,
        samples = [], fetchError = Some ''timeout'' \<rparr>]"





text \<open>
  What decides the course of an execution: the outputs of the compare branches when all
  of them succeeded, and the output of \<open>AnalyzeDrift\<close>, which is the input of the
  Choice state, when the analysis returned.
\<close>

definition compare_results :: "lambdas \<Rightarrow> ConsistencyCheckerProps \<Rightarrow> json list option" where
  "compare_results lam props =
     (case collect (map (branch_outcome lam) (regions props)) of
        Inl f \<Rightarrow> None
      | Inr outs \<Rightarrow> Some outs)"

definition analysis_result :: "lambdas \<Rightarrow> ConsistencyCheckerProps \<Rightarrow> json option" where
  "analysis_result lam props =
     (case compare_results lam props of
        None \<Rightarrow> None
      | Some outs \<Rightarrow>
          (case lam driftDetectorFunction_arn (analyze_payload (JArr outs)) of
             Raised e \<Rightarrow> None
           | Returned ms j \<Rightarrow> Some (JObj [(''Payload'', j)])))"

text \<open>The payload \<open>CorrectDrift\<close> sends for a Choice input, when the Choice goes there
  and both parameter paths resolve.\<close>

definition correction_request :: "json \<Rightarrow> json option" where
  "correction_request d =
     (if lookup_path [''Payload'', ''driftDetected''] d = Some (JBool True) then
        (case lookup_path [''Payload'', ''driftRegions''] d of
           None \<Rightarrow> None
         | Some dr \<Rightarrow>
             (case lookup_path [''Payload'', ''canonicalState''] d of
                None \<Rightarrow> None
              | Some cs \<Rightarrow> Some (correct_payload dr cs)))
      else None)"

section \<open>How the workflow executes\<close>

subsection \<open>One lemma per state\<close>

lemma start_state: "StartAt (stateMachineDefinition props) = ''CompareRegions''"
  by (simp add: stateMachineDefinition_def)

lemma exec_region_branch:
  "exec lam (Suc n) (region_branch r) (StartAt (region_branch r)) inp =
     (branch_events inp r, branch_outcome lam r)"
  by (simp add: region_branch_def run_task_def branch_events_def branch_outcome_def
      compare_payload_def split: response.split)

lemma exec_Success:
  "exec lam (Suc n) (stateMachineDefinition props) ''Success'' d =
     ([StateEntered ''Success'' d], Succeeded ''Success'' d)"
  by (simp add: stateMachineDefinition_def)

lemma exec_CorrectDrift:
  "exec lam (Suc n) (stateMachineDefinition props) ''CorrectDrift'' d =
     (case (lookup_path [''Payload'', ''driftRegions''] d,
            lookup_path [''Payload'', ''canonicalState''] d) of
        (Some dr, Some cs) \<Rightarrow>
          (case lam stateCorrectorFunction_arn (correct_payload dr cs) of
             Raised e \<Rightarrow>
               ([StateEntered ''CorrectDrift'' d,
                 LambdaInvoked stateCorrectorFunction_arn (correct_payload dr cs)],
                Failed ''CorrectDrift'' (States_TaskFailed e))
           | Returned ms r \<Rightarrow>
               ([StateEntered ''CorrectDrift'' d,
                 LambdaInvoked stateCorrectorFunction_arn (correct_payload dr cs)],
                if 10000 < ms then Failed ''CorrectDrift'' States_Timeout
                else Succeeded ''CorrectDrift'' (JObj [(''Payload'', r)])))
      | _ \<Rightarrow>
          ([StateEntered ''CorrectDrift'' d],
           Failed ''CorrectDrift'' States_ParameterPathFailure))"
  by (simp add: stateMachineDefinition_def run_task_def correct_payload_def
      split: option.split response.split)

lemma exec_DriftDetected:
  "exec lam (Suc (Suc n)) (stateMachineDefinition props) ''DriftDetected?'' d =
     (case lookup_path [''Payload'', ''driftDetected''] d of
        None \<Rightarrow>
          ([StateEntered ''DriftDetected?'' d], Failed ''DriftDetected?'' States_Runtime)
      | Some v \<Rightarrow>
          (case exec lam (Suc n) (stateMachineDefinition props)
                  (if v = JBool True then ''CorrectDrift'' else ''Success'') d of
             (evs, r) \<Rightarrow> (StateEntered ''DriftDetected?'' d # evs, r)))"
  apply (subst exec.simps)
  apply (simp add: stateMachineDefinition_def split: option.split)
  done

lemma exec_AnalyzeDrift:
  "exec lam (Suc n) (stateMachineDefinition props) ''AnalyzeDrift'' a =
     (case lam driftDetectorFunction_arn (analyze_payload a) of
        Raised e \<Rightarrow>
          ([StateEntered ''AnalyzeDrift'' a,
            LambdaInvoked driftDetectorFunction_arn (analyze_payload a)],
           Failed ''AnalyzeDrift'' (States_TaskFailed e))
      | Returned ms j \<Rightarrow>
          (case exec lam n (stateMachineDefinition props) ''DriftDetected?''
                  (JObj [(''Payload'', j)]) of
             (evs, r) \<Rightarrow>
               (StateEntered ''AnalyzeDrift'' a
                  # LambdaInvoked driftDetectorFunction_arn (analyze_payload a) # evs, r)))"
  apply (subst exec.simps)
  apply (simp add: stateMachineDefinition_def run_task_def analyze_payload_def
      split: response.split prod.split)
  done

lemma exec_CompareRegions:
  "exec lam (Suc (Suc n)) (stateMachineDefinition props) ''CompareRegions'' inp =
     (case collect (map (branch_outcome lam) (regions props)) of
        Inl f \<Rightarrow>
          (StateEntered ''CompareRegions'' inp
             # concat (map (branch_events inp) (regions props)), f)
      | Inr outs \<Rightarrow>
          (case exec lam (Suc n) (stateMachineDefinition props) ''AnalyzeDrift'' (JArr outs) of
             (evs, r) \<Rightarrow>
               (StateEntered ''CompareRegions'' inp
                  # concat (map (branch_events inp) (regions props)) @ evs, r)))"
  apply (subst exec.simps)
  apply (simp add: stateMachineDefinition_def exec_region_branch comp_def Let_def
      split: sum.split prod.split del: exec.simps)
  done

lemmas exec_states =
  exec_CompareRegions exec_AnalyzeDrift exec_DriftDetected exec_CorrectDrift exec_Success

subsection \<open>Reading the history\<close>

lemma state_names_append: "state_names (xs @ ys) = state_names xs @ state_names ys"
  by (induction xs rule: state_names.induct) simp_all

lemma inputs_of_append: "inputs_of name (xs @ ys) = inputs_of name xs @ inputs_of name ys"
  by (induction name xs rule: inputs_of.induct) simp_all

lemma payloads_to_append: "payloads_to fn (xs @ ys) = payloads_to fn xs @ payloads_to fn ys"
  by (induction fn xs rule: payloads_to.induct) simp_all

lemma arn_distinct: "driftDetectorFunction_arn \<noteq> stateCorrectorFunction_arn"
  by (simp add: driftDetectorFunction_arn_def stateCorrectorFunction_arn_def attr_def)

lemma branch_name_not_top:
  "branch_name r \<noteq> ''CompareRegions''" "branch_name r \<noteq> ''AnalyzeDrift''"
  "branch_name r \<noteq> ''DriftDetected?''" "branch_name r \<noteq> ''CorrectDrift''"
  "branch_name r \<noteq> ''Success''" "branch_name r \<noteq> ''Escalated''"
  "branch_name r \<noteq> ''Resolved''"
  by (simp_all add: branch_name_def)

lemma top_not_branch_name:
  "''AnalyzeDrift'' \<notin> branch_name ` set rs" "''DriftDetected?'' \<notin> branch_name ` set rs"
  "''CorrectDrift'' \<notin> branch_name ` set rs" "''Success'' \<notin> branch_name ` set rs"
  "''Escalated'' \<notin> branch_name ` set rs" "''Resolved'' \<notin> branch_name ` set rs"
  by (auto simp add: branch_name_def)

lemma state_names_branches:
  "state_names (concat (map (branch_events inp) rs)) = map branch_name rs"
  by (induction rs) (simp_all add: branch_events_def)

lemma inputs_of_branches:
  "name \<notin> branch_name ` set rs \<Longrightarrow>
     inputs_of name (concat (map (branch_events inp) rs)) = []"
  by (induction rs) (auto simp add: branch_events_def)

lemma corrector_not_in_branches:
  "payloads_to stateCorrectorFunction_arn (concat (map (branch_events inp) rs)) = []"
  using arn_distinct by (induction rs) (simp_all add: branch_events_def)

lemma detector_in_branches:
  "payloads_to driftDetectorFunction_arn (concat (map (branch_events inp) rs))
     = map compare_payload rs"
  by (induction rs) (simp_all add: branch_events_def)

lemmas history_simps =
  state_names_append inputs_of_append payloads_to_append state_names_branches
  inputs_of_branches corrector_not_in_branches detector_in_branches
  branch_name_not_top top_not_branch_name

lemma collect_branches:
  "(\<exists>outs. collect (map (branch_outcome lam) rs) = Inr outs)
     = (\<forall>r\<in>set rs. sampled_in_time lam r)"
  by (induction rs)
    (auto simp add: branch_outcome_def sampled_in_time_def split: response.splits sum.splits)

lemma collect_failed:
  "collect os = Inl f \<Longrightarrow> f \<in> set os \<and> (\<forall>name j. f \<noteq> Succeeded name j)"
  by (induction os rule: collect.induct) (auto split: sum.splits)

lemma branch_outcome_succeeded:
  "(\<exists>name j. branch_outcome lam r = Succeeded name j) = sampled_in_time lam r"
  by (auto simp add: branch_outcome_def sampled_in_time_def split: response.splits)

lemma branch_outcome_fuel: "branch_outcome lam r \<noteq> OutOfFuel"
  by (simp add: branch_outcome_def split: response.split)

lemma collect_branches_failed:
  assumes "collect (map (branch_outcome lam) rs) = Inl f"
  shows "\<exists>r\<in>set rs. \<not> sampled_in_time lam r \<and> f = branch_outcome lam r"
proof -
  from collect_failed [OF assms] obtain r where r: "r \<in> set rs" "f = branch_outcome lam r"
    and ns: "\<forall>name j. f \<noteq> Succeeded name j" by auto
  from r(2) ns have "\<not> sampled_in_time lam r"
    using branch_outcome_succeeded [of lam r] by auto
  with r show ?thesis by blast
qed

subsection \<open>Every execution ends, whatever fuel is left over\<close>

lemma cycle_ends: "cycle_outcome lam n props inp \<noteq> OutOfFuel"
  using collect_branches_failed [of lam "regions props"] branch_outcome_fuel [THEN not_sym, of lam]
  by (auto simp add: cycle_outcome_def run_cycle_def start_state exec_states
      simp del: exec.simps
      split: sum.split prod.split response.split option.split)

lemma fuel_irrelevant:
  "run_cycle lam (Suc (Suc (Suc (Suc n)))) props inp
     = run_cycle lam (Suc (Suc (Suc (Suc 0)))) props inp"
  by (simp add: run_cycle_def start_state exec_states
      del: exec.simps
      split: sum.split prod.split response.split option.split)

subsection \<open>What an execution records, read off the decisive results\<close>

lemma names_after_choice:
  "state_names (fst (exec lam (Suc (Suc n)) (stateMachineDefinition props) ''DriftDetected?'' d)) =
     ''DriftDetected?'' #
       (case lookup_path [''Payload'', ''driftDetected''] d of
          None \<Rightarrow> []
        | Some v \<Rightarrow> if v = JBool True then [''CorrectDrift''] else [''Success''])"
  by (simp add: exec_DriftDetected exec_CorrectDrift exec_Success del: exec.simps
      split: option.split response.split)

lemma corrector_after_choice:
  "payloads_to stateCorrectorFunction_arn
     (fst (exec lam (Suc (Suc n)) (stateMachineDefinition props) ''DriftDetected?'' d)) =
     (case correction_request d of None \<Rightarrow> [] | Some p \<Rightarrow> [p])"
  by (simp add: exec_DriftDetected exec_CorrectDrift exec_Success correction_request_def
      del: exec.simps split: option.split response.split)

lemma detector_after_choice:
  "payloads_to driftDetectorFunction_arn
     (fst (exec lam (Suc (Suc n)) (stateMachineDefinition props) ''DriftDetected?'' d)) = []"
  using arn_distinct
  by (simp add: exec_DriftDetected exec_CorrectDrift exec_Success
      del: exec.simps split: option.split response.split)

lemma inputs_after_choice:
  "inputs_of ''DriftDetected?''
     (fst (exec lam (Suc (Suc n)) (stateMachineDefinition props) ''DriftDetected?'' d)) = [d]"
  by (simp add: exec_DriftDetected exec_CorrectDrift exec_Success
      del: exec.simps split: option.split response.split)

lemma last_after_choice:
  "last (fst (exec lam (Suc (Suc n)) (stateMachineDefinition props) ''DriftDetected?'' d)) =
     (case correction_request d of
        Some p \<Rightarrow> LambdaInvoked stateCorrectorFunction_arn p
      | None \<Rightarrow>
          (case lookup_path [''Payload'', ''driftDetected''] d of
             None \<Rightarrow> StateEntered ''DriftDetected?'' d
           | Some v \<Rightarrow>
               if v = JBool True then StateEntered ''CorrectDrift'' d
               else StateEntered ''Success'' d))"
  by (simp add: exec_DriftDetected exec_CorrectDrift exec_Success correction_request_def
      del: exec.simps split: option.split response.split)

lemma events_nonempty_after_choice:
  "fst (exec lam (Suc (Suc n)) (stateMachineDefinition props) ''DriftDetected?'' d) \<noteq> []"
  by (simp add: exec_DriftDetected del: exec.simps split: option.split prod.split)

lemma outcome_after_choice:
  "snd (exec lam (Suc (Suc n)) (stateMachineDefinition props) ''DriftDetected?'' d) =
     (case lookup_path [''Payload'', ''driftDetected''] d of
        None \<Rightarrow> Failed ''DriftDetected?'' States_Runtime
      | Some v \<Rightarrow>
          if v = JBool True then
            (case correction_request d of
               None \<Rightarrow> Failed ''CorrectDrift'' States_ParameterPathFailure
             | Some p \<Rightarrow>
                 (case lam stateCorrectorFunction_arn p of
                    Raised e \<Rightarrow> Failed ''CorrectDrift'' (States_TaskFailed e)
                  | Returned ms r \<Rightarrow>
                      if 10000 < ms then Failed ''CorrectDrift'' States_Timeout
                      else Succeeded ''CorrectDrift'' (JObj [(''Payload'', r)])))
          else Succeeded ''Success'' d)"
  by (simp add: exec_DriftDetected exec_CorrectDrift exec_Success correction_request_def
      del: exec.simps split: option.split response.split)

lemma cycle_unfold:
  "run_cycle lam (Suc (Suc (Suc (Suc n)))) props inp =
     (case compare_results lam props of
        None \<Rightarrow>
          (StateEntered ''CompareRegions'' inp
             # concat (map (branch_events inp) (regions props)),
           (case collect (map (branch_outcome lam) (regions props)) of
              Inl f \<Rightarrow> f | Inr outs \<Rightarrow> OutOfFuel))
      | Some outs \<Rightarrow>
          (case lam driftDetectorFunction_arn (analyze_payload (JArr outs)) of
             Raised e \<Rightarrow>
               (StateEntered ''CompareRegions'' inp
                  # concat (map (branch_events inp) (regions props))
                  @ [StateEntered ''AnalyzeDrift'' (JArr outs),
                     LambdaInvoked driftDetectorFunction_arn (analyze_payload (JArr outs))],
                Failed ''AnalyzeDrift'' (States_TaskFailed e))
           | Returned ms j \<Rightarrow>
               (StateEntered ''CompareRegions'' inp
                  # concat (map (branch_events inp) (regions props))
                  @ [StateEntered ''AnalyzeDrift'' (JArr outs),
                     LambdaInvoked driftDetectorFunction_arn (analyze_payload (JArr outs))]
                  @ fst (exec lam (Suc (Suc n)) (stateMachineDefinition props)
                           ''DriftDetected?'' (JObj [(''Payload'', j)])),
                snd (exec lam (Suc (Suc n)) (stateMachineDefinition props)
                       ''DriftDetected?'' (JObj [(''Payload'', j)])))))"
  by (simp add: run_cycle_def start_state exec_CompareRegions exec_AnalyzeDrift
      compare_results_def split_beta
      del: exec.simps split: sum.split response.split)

lemma cycle_names:
  "state_names (cycle_events lam n props inp) =
     ''CompareRegions'' # map branch_name (regions props) @
       (case compare_results lam props of
          None \<Rightarrow> []
        | Some outs \<Rightarrow>
            ''AnalyzeDrift'' #
              (case analysis_result lam props of
                 None \<Rightarrow> []
               | Some d \<Rightarrow>
                   ''DriftDetected?'' #
                     (case lookup_path [''Payload'', ''driftDetected''] d of
                        None \<Rightarrow> []
                      | Some v \<Rightarrow> if v = JBool True then [''CorrectDrift''] else [''Success''])))"
  by (simp add: cycle_events_def cycle_unfold analysis_result_def names_after_choice
      state_names_append state_names_branches
      del: exec.simps split: option.split response.split)

lemma cycle_choice_inputs:
  "inputs_of ''DriftDetected?'' (cycle_events lam n props inp) =
     (case analysis_result lam props of None \<Rightarrow> [] | Some d \<Rightarrow> [d])"
  by (simp add: cycle_events_def cycle_unfold analysis_result_def inputs_after_choice
      inputs_of_append inputs_of_branches top_not_branch_name
      del: exec.simps split: option.split response.split)

lemma cycle_corrector_payloads:
  "payloads_to stateCorrectorFunction_arn (cycle_events lam n props inp) =
     (case analysis_result lam props of
        None \<Rightarrow> []
      | Some d \<Rightarrow> (case correction_request d of None \<Rightarrow> [] | Some p \<Rightarrow> [p]))"
  using arn_distinct
  by (simp add: cycle_events_def cycle_unfold analysis_result_def corrector_after_choice
      payloads_to_append corrector_not_in_branches
      del: exec.simps split: option.split response.split)

lemma cycle_detector_payloads:
  "payloads_to driftDetectorFunction_arn (cycle_events lam n props inp) =
     map compare_payload (regions props) @
       (case compare_results lam props of
          None \<Rightarrow> []
        | Some outs \<Rightarrow> [analyze_payload (JArr outs)])"
  by (simp add: cycle_events_def cycle_unfold detector_after_choice
      payloads_to_append detector_in_branches
      del: exec.simps split: option.split response.split)

lemma analysis_result_SomeD:
  "analysis_result lam props = Some d \<Longrightarrow>
     \<exists>outs ms j. compare_results lam props = Some outs
        \<and> lam driftDetectorFunction_arn (analyze_payload (JArr outs)) = Returned ms j
        \<and> d = JObj [(''Payload'', j)]"
  by (auto simp add: analysis_result_def split: option.splits response.splits)

lemma cycle_last_event:
  assumes "analysis_result lam props = Some d" "correction_request d = Some p"
  shows "last (cycle_events lam n props inp) = LambdaInvoked stateCorrectorFunction_arn p"
proof -
  from analysis_result_SomeD [OF assms(1)] obtain outs ms j
    where "compare_results lam props = Some outs"
      "lam driftDetectorFunction_arn (analyze_payload (JArr outs)) = Returned ms j"
      "d = JObj [(''Payload'', j)]" by blast
  with assms(2) show ?thesis
    by (simp add: cycle_events_def cycle_unfold last_after_choice
        events_nonempty_after_choice del: exec.simps)
qed

lemma cycle_outcome_after_analysis:
  assumes "analysis_result lam props = Some d"
  shows "cycle_outcome lam n props inp =
       snd (exec lam (Suc (Suc n)) (stateMachineDefinition props) ''DriftDetected?'' d)"
proof -
  from analysis_result_SomeD [OF assms] obtain outs ms j
    where "compare_results lam props = Some outs"
      "lam driftDetectorFunction_arn (analyze_payload (JArr outs)) = Returned ms j"
      "d = JObj [(''Payload'', j)]" by blast
  then show ?thesis
    by (simp add: cycle_outcome_def cycle_unfold del: exec.simps)
qed

lemma cycle_outcome_compare_failed:
  "compare_results lam props = None \<Longrightarrow>
     \<exists>r\<in>set (regions props). \<not> sampled_in_time lam r
        \<and> cycle_outcome lam n props inp = branch_outcome lam r"
  using collect_branches_failed [of lam "regions props"]
  by (auto simp add: cycle_outcome_def cycle_unfold compare_results_def
      simp del: exec.simps split: sum.splits)

lemma compare_results_Some:
  "(compare_results lam props \<noteq> None) = (\<forall>r\<in>set (regions props). sampled_in_time lam r)"
  using collect_branches [of lam "regions props"]
  by (auto simp add: compare_results_def split: sum.splits)

section \<open>The claims about the workflow and the construct\<close>

text \<open>
  The gate of the workflow. The Choice state \<open>DriftDetected?\<close> reads one boolean of
  the analysis result: the \<open>CorrectDrift\<close> step is entered if and only if
  \<open>Payload.driftDetected\<close> is \<open>true\<close>, and \<open>Success\<close> if and only if the field is
  present with any other value; the state-corrector function is invoked if and only if,
  besides, the result carries \<open>driftRegions\<close> and \<open>canonicalState\<close>.
\<close>

lemma choice_reads_driftDetected:
  "((''CorrectDrift'' \<in> set (state_names (cycle_events lam n props inp))) =
      (\<exists>d\<in>set (inputs_of ''DriftDetected?'' (cycle_events lam n props inp)).
         lookup_path [''Payload'', ''driftDetected''] d = Some (JBool True)))
   \<and> ((''Success'' \<in> set (state_names (cycle_events lam n props inp))) =
      (\<exists>d\<in>set (inputs_of ''DriftDetected?'' (cycle_events lam n props inp)).
         \<exists>v. lookup_path [''Payload'', ''driftDetected''] d = Some v \<and> v \<noteq> JBool True))
   \<and> ((payloads_to stateCorrectorFunction_arn (cycle_events lam n props inp) \<noteq> []) =
      (\<exists>d\<in>set (inputs_of ''DriftDetected?'' (cycle_events lam n props inp)).
         lookup_path [''Payload'', ''driftDetected''] d = Some (JBool True)
         \<and> lookup_path [''Payload'', ''driftRegions''] d \<noteq> None
         \<and> lookup_path [''Payload'', ''canonicalState''] d \<noteq> None))"
proof (cases "analysis_result lam props")
  case None
  then show ?thesis
    by (simp add: cycle_names cycle_choice_inputs cycle_corrector_payloads
        top_not_branch_name split: option.split)
next
  case (Some d)
  then have "compare_results lam props \<noteq> None"
    using analysis_result_SomeD by fastforce
  with Some show ?thesis
    by (cases "lookup_path [''Payload'', ''driftDetected''] d")
       (auto simp add: cycle_names cycle_choice_inputs cycle_corrector_payloads
        top_not_branch_name correction_request_def split: option.split)
qed

lemmas example_defs =
  example_lambdas_def two_regions_def three_regions_def example_props_def
  two_region_drift_def drift_without_snapshot_def no_drift_def
  compare_results_def analysis_result_def correction_request_def branch_outcome_def
  compare_payload_def analyze_payload_def correct_payload_def branch_name_def
  strip_hyphens_def driftDetectorFunction_arn_def stateCorrectorFunction_arn_def attr_def

lemma corrector_invoked_cases:
  assumes "payloads_to stateCorrectorFunction_arn (cycle_events lam n props inp) \<noteq> []"
  obtains d p where "analysis_result lam props = Some d" "correction_request d = Some p"
    "payloads_to stateCorrectorFunction_arn (cycle_events lam n props inp) = [p]"
  using assms
  by (auto simp add: cycle_corrector_payloads split: option.splits)

lemma correction_request_SomeD:
  "correction_request d = Some p \<Longrightarrow>
     lookup_path [''Payload'', ''driftDetected''] d = Some (JBool True)"
  by (simp add: correction_request_def split: if_splits)

lemma never_resolved:
  "''Resolved'' \<notin> set (state_names (cycle_events lam n props inp))"
  by (simp add: cycle_names top_not_branch_name split: option.split)

lemma outcome_state_after_correction:
  "correction_request d = Some p \<Longrightarrow>
     outcome_state (snd (exec lam (Suc (Suc n)) (stateMachineDefinition props)
                           ''DriftDetected?'' d)) = ''CorrectDrift''"
  by (simp add: outcome_after_choice correction_request_SomeD del: exec.simps
      split: response.split)

text \<open>
  Claim C2, as the workflow has it. \<open>CorrectDrift\<close> has \<open>End: true\<close>: when the state
  corrector has been invoked, that invocation is the last event of the execution, the last
  state entered is \<open>CorrectDrift\<close> and the execution ends there, succeeded or failed.
  No verification step follows, and no state \<open>Resolved\<close> is entered.
\<close>

theorem correction_ends_the_cycle:
  assumes "payloads_to stateCorrectorFunction_arn (cycle_events lam n props inp) \<noteq> []"
  shows "last (cycle_events lam n props inp) =
           LambdaInvoked stateCorrectorFunction_arn
             (last (payloads_to stateCorrectorFunction_arn (cycle_events lam n props inp)))
         \<and> last (state_names (cycle_events lam n props inp)) = ''CorrectDrift''
         \<and> outcome_state (cycle_outcome lam n props inp) = ''CorrectDrift''
         \<and> ''Resolved'' \<notin> set (state_names (cycle_events lam n props inp))"
proof -
  from assms obtain d p where d: "analysis_result lam props = Some d"
    and p: "correction_request d = Some p"
    and ps: "payloads_to stateCorrectorFunction_arn (cycle_events lam n props inp) = [p]"
    by (rule corrector_invoked_cases)
  from d have c: "compare_results lam props \<noteq> None"
    using analysis_result_SomeD by fastforce
  have "last (cycle_events lam n props inp) = LambdaInvoked stateCorrectorFunction_arn p"
    using d p by (rule cycle_last_event)
  moreover have "last (state_names (cycle_events lam n props inp)) = ''CorrectDrift''"
    using d c correction_request_SomeD [OF p] by (auto simp add: cycle_names)
  moreover have "outcome_state (cycle_outcome lam n props inp) = ''CorrectDrift''"
    using outcome_state_after_correction [OF p]
    by (simp add: cycle_outcome_after_analysis [OF d] del: exec.simps)
  ultimately show ?thesis using never_resolved by (simp add: ps)
qed

text \<open>The hypothesis of C2 holds in an execution that detects drift in three regions.\<close>

theorem correction_ends_the_cycle_witness:
  "payloads_to stateCorrectorFunction_arn
     (cycle_events (example_lambdas [] drift_without_snapshot (Returned 100 JNull)) 0
        three_regions JNull) \<noteq> []
   \<and> last (state_names
        (cycle_events (example_lambdas [] drift_without_snapshot (Returned 100 JNull)) 0
           three_regions JNull)) = ''CorrectDrift''
   \<and> outcome_state
        (cycle_outcome (example_lambdas [] drift_without_snapshot (Returned 100 JNull)) 0
           three_regions JNull) = ''CorrectDrift''"
proof -
  have h: "payloads_to stateCorrectorFunction_arn
     (cycle_events (example_lambdas [] drift_without_snapshot (Returned 100 JNull)) 0
        three_regions JNull) \<noteq> []"
    by (simp only: cycle_corrector_payloads) (simp add: example_defs)
  from correction_ends_the_cycle [OF h] h show ?thesis by simp
qed

text \<open>
  Claim C2 as stated fails: after a correction the execution has succeeded in
  \<open>CorrectDrift\<close>; the drift detector was invoked three times only (two compare
  actions, one analysis), so nothing was sampled again.
\<close>

theorem cycle_stops_after_correction:
  "cycle_outcome (example_lambdas [] two_region_drift (Returned 100 JNull)) 0
      two_regions JNull
     = Succeeded ''CorrectDrift'' (JObj [(''Payload'', JNull)])
   \<and> state_names
        (cycle_events (example_lambdas [] two_region_drift (Returned 100 JNull)) 0
           two_regions JNull)
     = [''CompareRegions'', ''CheckRegionuseast1'', ''CheckRegionuswest2'',
        ''AnalyzeDrift'', ''DriftDetected?'', ''CorrectDrift'']
   \<and> length (payloads_to driftDetectorFunction_arn
        (cycle_events (example_lambdas [] two_region_drift (Returned 100 JNull)) 0
           two_regions JNull)) = 3"
proof -
  have a: "analysis_result (example_lambdas [] two_region_drift (Returned 100 JNull)) two_regions
      = Some (JObj [(''Payload'', two_region_drift)])"
    by (simp add: example_defs)
  have "cycle_outcome (example_lambdas [] two_region_drift (Returned 100 JNull)) 0
      two_regions JNull
     = Succeeded ''CorrectDrift'' (JObj [(''Payload'', JNull)])"
    by (simp only: cycle_outcome_after_analysis [OF a] outcome_after_choice)
       (simp add: example_defs)
  moreover have "state_names
        (cycle_events (example_lambdas [] two_region_drift (Returned 100 JNull)) 0
           two_regions JNull)
     = [''CompareRegions'', ''CheckRegionuseast1'', ''CheckRegionuswest2'',
        ''AnalyzeDrift'', ''DriftDetected?'', ''CorrectDrift'']"
    by (simp only: cycle_names) (simp add: example_defs)
  moreover have "length (payloads_to driftDetectorFunction_arn
        (cycle_events (example_lambdas [] two_region_drift (Returned 100 JNull)) 0
           two_regions JNull)) = 3"
    by (simp only: cycle_detector_payloads) (simp add: example_defs)
  ultimately show ?thesis by simp
qed

lemma choice_input_is_analysis:
  "d \<in> set (inputs_of ''DriftDetected?'' (cycle_events lam n props inp)) \<Longrightarrow>
     analysis_result lam props = Some d"
  by (simp add: cycle_choice_inputs split: option.splits)

lemma never_escalated:
  "''Escalated'' \<notin> set (state_names (cycle_events lam n props inp))"
  by (simp add: cycle_names top_not_branch_name split: option.split)

lemma outcome_state_after_choice:
  "outcome_state (snd (exec lam (Suc (Suc n)) (stateMachineDefinition props)
                         ''DriftDetected?'' d)) \<noteq> ''Escalated''"
  by (simp add: outcome_after_choice del: exec.simps split: option.split response.split)

lemma branch_outcome_failed:
  "\<not> sampled_in_time lam r \<Longrightarrow> \<exists>e. branch_outcome lam r = Failed (branch_name r) e"
  by (auto simp add: branch_outcome_def sampled_in_time_def split: response.splits)

lemma outcome_state_never_escalated:
  "outcome_state (cycle_outcome lam n props inp) \<noteq> ''Escalated''"
proof (cases "compare_results lam props")
  case None
  from cycle_outcome_compare_failed [OF None, of n inp] obtain r
    where "\<not> sampled_in_time lam r" "cycle_outcome lam n props inp = branch_outcome lam r"
    by blast
  then show ?thesis using branch_outcome_failed [of lam r]
    by (auto simp add: branch_name_not_top)
next
  case (Some outs)
  show ?thesis
  proof (cases "analysis_result lam props")
    case None
    with Some show ?thesis
      by (simp add: cycle_outcome_def cycle_unfold analysis_result_def del: exec.simps
          split: response.splits)
  next
    case (Some d)
    then show ?thesis
      by (simp add: cycle_outcome_after_analysis outcome_state_after_choice del: exec.simps)
  qed
qed

text \<open>
  Claim C4, as the workflow has it. The state machine checks neither the presence nor the
  age of the canonical state: once the analysis result says \<open>driftDetected\<close> and carries
  the two fields, the state corrector is invoked with whatever \<open>canonicalState\<close> it holds.
  If the corrector raises an error the execution fails in \<open>CorrectDrift\<close> with that
  error; no state \<open>Escalated\<close> is ever entered and no execution ends in one.
\<close>

theorem no_escalation_path:
  assumes "d \<in> set (inputs_of ''DriftDetected?'' (cycle_events lam n props inp))"
    and "lookup_path [''Payload'', ''driftDetected''] d = Some (JBool True)"
    and "lookup_path [''Payload'', ''driftRegions''] d = Some dr"
    and "lookup_path [''Payload'', ''canonicalState''] d = Some cs"
  shows "payloads_to stateCorrectorFunction_arn (cycle_events lam n props inp)
           = [correct_payload dr cs]
         \<and> (case lam stateCorrectorFunction_arn (correct_payload dr cs) of
               Raised e \<Rightarrow>
                 cycle_outcome lam n props inp = Failed ''CorrectDrift'' (States_TaskFailed e)
             | Returned ms r \<Rightarrow>
                 cycle_outcome lam n props inp =
                   (if 10000 < ms then Failed ''CorrectDrift'' States_Timeout
                    else Succeeded ''CorrectDrift'' (JObj [(''Payload'', r)])))
         \<and> ''Escalated'' \<notin> set (state_names (cycle_events lam n props inp))
         \<and> outcome_state (cycle_outcome lam n props inp) \<noteq> ''Escalated''"
proof -
  from assms(1) have a: "analysis_result lam props = Some d"
    by (rule choice_input_is_analysis)
  from assms(2-4) have p: "correction_request d = Some (correct_payload dr cs)"
    by (simp add: correction_request_def)
  from a p have "payloads_to stateCorrectorFunction_arn (cycle_events lam n props inp)
           = [correct_payload dr cs]"
    by (simp add: cycle_corrector_payloads)
  moreover have "(case lam stateCorrectorFunction_arn (correct_payload dr cs) of
               Raised e \<Rightarrow>
                 cycle_outcome lam n props inp = Failed ''CorrectDrift'' (States_TaskFailed e)
             | Returned ms r \<Rightarrow>
                 cycle_outcome lam n props inp =
                   (if 10000 < ms then Failed ''CorrectDrift'' States_Timeout
                    else Succeeded ''CorrectDrift'' (JObj [(''Payload'', r)])))"
    using p assms(2)
    by (simp add: cycle_outcome_after_analysis [OF a] outcome_after_choice del: exec.simps
        split: response.split)
  ultimately show ?thesis
    using never_escalated outcome_state_never_escalated by blast
qed

text \<open>The hypotheses of C4 hold when the analysis result has \<open>null\<close> for the canonical state.\<close>

theorem no_escalation_path_witness:
  "JObj [(''Payload'', drift_without_snapshot)]
     \<in> set (inputs_of ''DriftDetected?''
         (cycle_events
            (example_lambdas [] drift_without_snapshot (Raised ''SnapshotUnavailable'')) 0
            three_regions JNull))
   \<and> payloads_to stateCorrectorFunction_arn
        (cycle_events
           (example_lambdas [] drift_without_snapshot (Raised ''SnapshotUnavailable'')) 0
           three_regions JNull)
       = [correct_payload
            (JArr [JStr ''us-east-1'', JStr ''us-west-2'', JStr ''eu-west-1'']) JNull]
   \<and> outcome_state
        (cycle_outcome
           (example_lambdas [] drift_without_snapshot (Raised ''SnapshotUnavailable'')) 0
           three_regions JNull) \<noteq> ''Escalated''"
proof -
  have h1: "JObj [(''Payload'', drift_without_snapshot)]
     \<in> set (inputs_of ''DriftDetected?''
         (cycle_events
            (example_lambdas [] drift_without_snapshot (Raised ''SnapshotUnavailable'')) 0
            three_regions JNull))"
    by (simp only: cycle_choice_inputs) (simp add: example_defs)
  have h2: "lookup_path [''Payload'', ''driftDetected'']
      (JObj [(''Payload'', drift_without_snapshot)]) = Some (JBool True)"
    by (simp add: drift_without_snapshot_def)
  have h3: "lookup_path [''Payload'', ''driftRegions'']
      (JObj [(''Payload'', drift_without_snapshot)])
        = Some (JArr [JStr ''us-east-1'', JStr ''us-west-2'', JStr ''eu-west-1''])"
    by (simp add: drift_without_snapshot_def)
  have h4: "lookup_path [''Payload'', ''canonicalState'']
      (JObj [(''Payload'', drift_without_snapshot)]) = Some JNull"
    by (simp add: drift_without_snapshot_def)
  from no_escalation_path [OF h1 h2 h3 h4] h1 show ?thesis by simp
qed

text \<open>
  Claim C4 as stated fails: with a missing canonical state and a corrector that raises
  \<open>SnapshotUnavailable\<close>, the execution ends as failed in \<open>CorrectDrift\<close>; the
  definition has no state named \<open>Escalated\<close>.
\<close>

theorem missing_snapshot_fails_the_execution:
  "cycle_outcome
     (example_lambdas [] drift_without_snapshot (Raised ''SnapshotUnavailable'')) 0
     three_regions JNull
     = Failed ''CorrectDrift'' (States_TaskFailed ''SnapshotUnavailable'')
   \<and> state_names
        (cycle_events
           (example_lambdas [] drift_without_snapshot (Raised ''SnapshotUnavailable'')) 0
           three_regions JNull)
     = [''CompareRegions'', ''CheckRegionuseast1'', ''CheckRegionuswest2'',
        ''CheckRegioneuwest1'', ''AnalyzeDrift'', ''DriftDetected?'', ''CorrectDrift'']
   \<and> ''Escalated'' \<notin> set (map fst (States (stateMachineDefinition three_regions)))"
proof -
  have a: "analysis_result
      (example_lambdas [] drift_without_snapshot (Raised ''SnapshotUnavailable''))
      three_regions = Some (JObj [(''Payload'', drift_without_snapshot)])"
    by (simp add: example_defs)
  have "cycle_outcome
     (example_lambdas [] drift_without_snapshot (Raised ''SnapshotUnavailable'')) 0
     three_regions JNull
     = Failed ''CorrectDrift'' (States_TaskFailed ''SnapshotUnavailable'')"
    by (simp only: cycle_outcome_after_analysis [OF a] outcome_after_choice)
       (simp add: example_defs)
  moreover have "state_names
        (cycle_events
           (example_lambdas [] drift_without_snapshot (Raised ''SnapshotUnavailable'')) 0
           three_regions JNull)
     = [''CompareRegions'', ''CheckRegionuseast1'', ''CheckRegionuswest2'',
        ''CheckRegioneuwest1'', ''AnalyzeDrift'', ''DriftDetected?'', ''CorrectDrift'']"
    by (simp only: cycle_names) (simp add: example_defs)
  moreover have
    "''Escalated'' \<notin> set (map fst (States (stateMachineDefinition three_regions)))"
    by (simp add: stateMachineDefinition_def)
  ultimately show ?thesis by simp
qed

text \<open>
  Claim C5, as the workflow has it. Each compare task has a timeout of five seconds
  (\<open>compare_deadline\<close>), and no branch has a \<open>Catch\<close>: \<open>AnalyzeDrift\<close> is entered if
  and only if the compare invocation of every region returned within five seconds. When
  a region fails or times out, the execution ends as failed in the branch of a region
  that failed or timed out, and the drift detector is invoked for the compare actions only.
\<close>

theorem analysis_needs_every_region:
  "((''AnalyzeDrift'' \<in> set (state_names (cycle_events lam n props inp))) =
      (\<forall>r\<in>set (regions props). sampled_in_time lam r))
   \<and> ((\<exists>r\<in>set (regions props). \<not> sampled_in_time lam r) \<longrightarrow>
        (\<exists>r\<in>set (regions props). \<not> sampled_in_time lam r
            \<and> (\<exists>e. cycle_outcome lam n props inp = Failed (branch_name r) e))
        \<and> payloads_to driftDetectorFunction_arn (cycle_events lam n props inp)
            = map compare_payload (regions props))"
proof (cases "compare_results lam props")
  case None
  then have ex: "\<exists>r\<in>set (regions props). \<not> sampled_in_time lam r"
    using compare_results_Some [of lam props] by simp
  from cycle_outcome_compare_failed [OF None, of n inp] obtain r
    where r: "r \<in> set (regions props)" "\<not> sampled_in_time lam r"
      "cycle_outcome lam n props inp = branch_outcome lam r"
    by blast
  with branch_outcome_failed [of lam r]
  have "\<exists>r\<in>set (regions props). \<not> sampled_in_time lam r
      \<and> (\<exists>e. cycle_outcome lam n props inp = Failed (branch_name r) e)"
    by auto
  with None ex show ?thesis
    by (simp add: cycle_names cycle_detector_payloads top_not_branch_name)
next
  case (Some outs)
  then have "\<forall>r\<in>set (regions props). sampled_in_time lam r"
    using compare_results_Some [of lam props] by simp
  with Some show ?thesis
    by (simp add: cycle_names)
qed

text \<open>Both hypotheses of C5 at concrete executions: all regions in time, and one region late.\<close>

theorem analysis_needs_every_region_witness:
  "sampled_in_time (example_lambdas [] no_drift (Returned 100 JNull)) ''us-east-1''
   \<and> sampled_in_time (example_lambdas [] no_drift (Returned 100 JNull)) ''us-west-2''
   \<and> ''AnalyzeDrift'' \<in> set (state_names
        (cycle_events (example_lambdas [] no_drift (Returned 100 JNull)) 0 two_regions JNull))
   \<and> \<not> sampled_in_time (example_lambdas ''eu-west-1'' no_drift (Returned 100 JNull))
         ''eu-west-1''
   \<and> ''AnalyzeDrift'' \<notin> set (state_names
        (cycle_events (example_lambdas ''eu-west-1'' no_drift (Returned 100 JNull)) 0
           three_regions JNull))"
proof -
  have r2: "regions two_regions = [''us-east-1'', ''us-west-2'']"
    and r3: "regions three_regions = [''us-east-1'', ''us-west-2'', ''eu-west-1'']"
    by (simp_all add: two_regions_def three_regions_def example_props_def)
  have h1: "sampled_in_time (example_lambdas [] no_drift (Returned 100 JNull)) ''us-east-1''"
    "sampled_in_time (example_lambdas [] no_drift (Returned 100 JNull)) ''us-west-2''"
    by (simp_all add: sampled_in_time_def example_defs)
  have h2: "\<not> sampled_in_time (example_lambdas ''eu-west-1'' no_drift (Returned 100 JNull))
         ''eu-west-1''"
    by (simp add: sampled_in_time_def example_defs)
  from h1 r2
    analysis_needs_every_region
      [of "example_lambdas [] no_drift (Returned 100 JNull)" 0 two_regions JNull]
  have "''AnalyzeDrift'' \<in> set (state_names
        (cycle_events (example_lambdas [] no_drift (Returned 100 JNull)) 0 two_regions JNull))"
    by simp
  moreover from h2 r3
    analysis_needs_every_region
      [of "example_lambdas ''eu-west-1'' no_drift (Returned 100 JNull)" 0 three_regions JNull]
  have "''AnalyzeDrift'' \<notin> set (state_names
        (cycle_events (example_lambdas ''eu-west-1'' no_drift (Returned 100 JNull)) 0
           three_regions JNull))"
    by simp
  ultimately show ?thesis using h1 h2 by simp
qed

text \<open>
  Claim C5 as stated fails: of three regions one takes six seconds; the execution fails
  with \<open>States.Timeout\<close> in its branch, and the analysis never runs on the other two.
\<close>

theorem one_timeout_fails_the_cycle:
  "cycle_outcome (example_lambdas ''eu-west-1'' no_drift (Returned 100 JNull)) 0
      three_regions JNull
     = Failed ''CheckRegioneuwest1'' States_Timeout
   \<and> state_names
        (cycle_events (example_lambdas ''eu-west-1'' no_drift (Returned 100 JNull)) 0
           three_regions JNull)
     = [''CompareRegions'', ''CheckRegionuseast1'', ''CheckRegionuswest2'',
        ''CheckRegioneuwest1'']
   \<and> payloads_to driftDetectorFunction_arn
        (cycle_events (example_lambdas ''eu-west-1'' no_drift (Returned 100 JNull)) 0
           three_regions JNull)
     = [compare_payload ''us-east-1'', compare_payload ''us-west-2'',
        compare_payload ''eu-west-1'']"
proof -
  have "cycle_outcome (example_lambdas ''eu-west-1'' no_drift (Returned 100 JNull)) 0
      three_regions JNull
     = Failed ''CheckRegioneuwest1'' States_Timeout"
    by (simp only: cycle_outcome_def cycle_unfold) (simp add: example_defs)
  moreover have "state_names
        (cycle_events (example_lambdas ''eu-west-1'' no_drift (Returned 100 JNull)) 0
           three_regions JNull)
     = [''CompareRegions'', ''CheckRegionuseast1'', ''CheckRegionuswest2'',
        ''CheckRegioneuwest1'']"
    by (simp only: cycle_names) (simp add: example_defs)
  moreover have "payloads_to driftDetectorFunction_arn
        (cycle_events (example_lambdas ''eu-west-1'' no_drift (Returned 100 JNull)) 0
           three_regions JNull)
     = [compare_payload ''us-east-1'', compare_payload ''us-west-2'',
        compare_payload ''eu-west-1'']"
    by (simp only: cycle_detector_payloads) (simp add: example_defs)
  ultimately show ?thesis by simp
qed

text \<open>The deadline of a compare task and the shortest period of a schedule.\<close>

lemma compare_deadline:
  "map_of (States (region_branch r)) (StartAt (region_branch r)) = Some st \<Longrightarrow>
     TimeoutSeconds st = Some 5"
  by (auto simp add: region_branch_def)

lemma snapshots_are_hourly:
  "rate_seconds (scheduleExpression (snapshotRule env prov)) = Some 3600"
  by (simp add: snapshotRule_def rate_seconds_def unit_seconds_def digit_value_def)

lemma rate_seconds_minimum: "rate_seconds s = Some k \<Longrightarrow> 60 \<le> k"
  by (auto simp add: rate_seconds_def unit_seconds_def
      split: if_splits prod.splits list.splits option.splits)

text \<open>
  Claim C3, as the construct has it. The schedule of the consistency check is
  \<open>rate(1 minute)\<close>, a period of 60 seconds; the constructor creates this one rule
  and one target, which starts the state machine on the rule. (No rate expression has a
  shorter period: \<open>rate_seconds_minimum\<close>.)
\<close>

theorem cadence_is_one_minute:
  "rate_seconds (scheduleExpression (eventRule props prov)) = Some 60
   \<and> (case ConsistencyChecker props of
         Inl e \<Rightarrow> True
       | Inr rs \<Rightarrow>
           filter (\<lambda>r. construct_id r = ''consistency-check-rule'') rs
             = [eventRule props (map_of (providers props) (primaryRegion props))]
           \<and> filter (\<lambda>r. construct_id r = ''consistency-check-target'') rs
             = [CloudwatchEventTarget ''consistency-check-target''
                  (map_of (providers props) (primaryRegion props))
                  (attr ''consistency-check-rule'' ''name'')
                  (attr ''consistency-state-machine'' ''arn'')
                  (attr ''step-functions-role'' ''arn'')])"
  by (simp add: eventRule_def rate_seconds_def unit_seconds_def digit_value_def
      ConsistencyChecker_def driftDetectorFunction_def stateCorrectorFunction_def Let_def
      split: option.split list.split)

text \<open>Claim C3 as stated fails: the period is not 10 seconds.\<close>

theorem cadence_is_not_ten_seconds:
  "rate_seconds (scheduleExpression (eventRule two_regions (Some (AwsProvider ''us-east-1''))))
     \<noteq> Some 10"
  by (simp add: eventRule_def rate_seconds_def unit_seconds_def digit_value_def)

text \<open>
  Claim C10. When the constructor succeeds it creates nine resources, every one with the
  provider looked up for the primary region; the region list is not empty, and the drift
  detector's \<open>ELASTICACHE_ENDPOINT\<close> is the configuration endpoint of the cluster of the
  first region of the list, the only endpoint among its variables.
\<close>

theorem checker_is_centralized:
  assumes "ConsistencyChecker props = Inr rs"
  shows "map construct_id rs =
           [''drift-detector-role'', ''drift-detector-policy'', ''drift-detector'',
            ''state-corrector'', ''step-functions-role'', ''step-functions-policy'',
            ''consistency-state-machine'', ''consistency-check-rule'',
            ''consistency-check-target'']
         \<and> (\<forall>r\<in>set rs. provider r = map_of (providers props) (primaryRegion props))
         \<and> (\<exists>c. regions props \<noteq> []
               \<and> map_of (elastiCacheClusters props) (hd (regions props)) = Some c
               \<and> (\<forall>r\<in>set rs. construct_id r = ''drift-detector'' \<longrightarrow>
                     map fst (variables r) =
                       [''REGIONS'', ''ELASTICACHE_ENDPOINT'', ''SNAPSHOT_BUCKET'',
                        ''DETECTION_DEADLINE_MS'', ''CORRECTION_DEADLINE_MS'']
                     \<and> map_of (variables r) ''ELASTICACHE_ENDPOINT''
                         = Some (EnvString (configurationEndpointAddress c))))"
  using assms
  by (auto simp add: ConsistencyChecker_def driftDetectorFunction_def
      stateCorrectorFunction_def eventRule_def Let_def
      split: option.splits list.splits)

text \<open>The hypothesis of C10 holds for a deployment with three regions.\<close>

theorem checker_is_centralized_witness:
  "(case ConsistencyChecker three_regions of
      Inl e \<Rightarrow> False
    | Inr rs \<Rightarrow>
        length rs = 9
        \<and> (\<forall>r\<in>set rs. provider r = Some (AwsProvider ''us-east-1''))
        \<and> (\<forall>r\<in>set rs. construct_id r = ''drift-detector'' \<longrightarrow>
              map_of (variables r) ''ELASTICACHE_ENDPOINT''
                = Some (EnvString ''cache.us-east-1.example'')))"
proof (cases "ConsistencyChecker three_regions")
  case (Inl e)
  then show ?thesis
    by (simp add: ConsistencyChecker_def three_regions_def example_props_def Let_def)
next
  case (Inr rs)
  from checker_is_centralized [OF Inr]
  have "length (map construct_id rs) = 9"
    and "\<forall>r\<in>set rs. provider r = map_of (providers three_regions) (primaryRegion three_regions)"
    and "\<forall>r\<in>set rs. construct_id r = ''drift-detector'' \<longrightarrow>
            map_of (variables r) ''ELASTICACHE_ENDPOINT''
              = Some (EnvString (configurationEndpointAddress
                  (the (map_of (elastiCacheClusters three_regions) (hd (regions three_regions))))))"
    by auto
  then show ?thesis using Inr
    by (simp add: three_regions_def example_props_def)
qed

section \<open>The claims about the analyzer and the propagation\<close>

subsection \<open>Identical samples\<close>

lemma haversine_same_position:
  "latitude a = latitude b \<Longrightarrow> longitude a = longitude b \<Longrightarrow> haversine a b = 0"
  by (simp add: haversine_def radians_def)

lemma fold_max_zero: "\<forall>x\<in>set ds. x = (0::real) \<Longrightarrow> fold max ds 0 = 0"
  by (induction ds) simp_all

lemma pairs_members: "(x, y) \<in> set (pairs xs) \<Longrightarrow> x \<in> set xs \<and> y \<in> set xs"
  by (induction xs) auto

lemma driver_pairs_distance:
  assumes "identical_positions ss" "pq \<in> set (driver_pairs d ss)"
  shows "pair_distance pq = 0"
proof -
  from assms(2) obtain s t a b where st: "(s, t) \<in> set (pairs ss)"
    and a: "a \<in> set (samples_of d s)" and b: "b \<in> set (samples_of d t)"
    and pq: "pq = ((snapshot_region s, a), (snapshot_region t, b))"
    by (auto simp add: driver_pairs_def)
  from st have "s \<in> set ss" "t \<in> set ss" using pairs_members by fastforce+
  moreover from a b have "a \<in> set (samples s)" "b \<in> set (samples t)" "driverID a = driverID b"
    by (auto simp add: samples_of_def)
  ultimately have "latitude a = latitude b \<and> longitude a = longitude b"
    using assms(1) unfolding identical_positions_def by blast
  then show ?thesis by (simp add: pq pair_distance_def haversine_same_position)
qed

lemma identical_not_drifted: "identical_positions ss \<Longrightarrow> \<not> drifted ss d"
  using driver_pairs_distance [of ss _ d]
  by (simp add: drifted_def max_distance_def fold_max_zero drift_threshold_m_def)

lemma identical_no_drifted_pairs: "identical_positions ss \<Longrightarrow> drifted_pairs ss = []"
  using driver_pairs_distance [of ss]
  by (auto simp add: drifted_pairs_def drift_threshold_m_def filter_empty_conv)

text \<open>
  Claim C7. When the usable snapshots (those without a fetch error) report the same
  position for every driver they share, \<open>analyze\<close> returns severity None, with no drifted
  driver and no affected region.
\<close>

theorem analyze_identical_samples:
  assumes "identical_positions (filter (\<lambda>s. fetchError s = None) snapshots)"
  shows "report_severity (analyze snapshots) = NoDrift
         \<and> driftedDriverCount (analyze snapshots) = 0
         \<and> affectedRegions (analyze snapshots) = []"
  using identical_not_drifted [OF assms] identical_no_drifted_pairs [OF assms]
  by (simp add: analyze_def Let_def classify_def)

text \<open>
  The hypothesis of C7 holds for two regions that agree on driver D1 and a third whose
  fetch failed.
\<close>

theorem analyze_identical_samples_witness:
  "identical_positions (filter (\<lambda>s. fetchError s = None) agreeing_snapshots)
   \<and> report_severity (analyze agreeing_snapshots) = NoDrift
   \<and> length (filter (\<lambda>s. fetchError s = None) agreeing_snapshots) = 2"
proof -
  have h: "identical_positions (filter (\<lambda>s. fetchError s = None) agreeing_snapshots)"
    by (simp add: identical_positions_def agreeing_snapshots_def sample_at_def)
  from analyze_identical_samples [OF h] h show ?thesis
    by (simp add: agreeing_snapshots_def)
qed

subsection \<open>Correction on major drift only\<close>





















subsection \<open>Applying a plan twice\<close>

lemma lww_simps:
  "lww None r = Some r"
  "lww (Some q) r = (if observedAtMillis q < observedAtMillis r then Some r else Some q)"
  by (simp_all add: lww_def)

text \<open>What a cache holds for one driver after a sequence of writes.\<close>

lemma fold_write_record_at:
  "fold write_record rs c d = foldl lww (c d) (filter (\<lambda>r. driverID r = d) rs)"
  by (induction rs arbitrary: c) (simp_all add: write_record_def)

text \<open>After the writes the stored record is as new as every record written.\<close>

lemma foldl_lww_newest:
  "rs \<noteq> [] \<Longrightarrow>
     \<exists>c. foldl lww old rs = Some c \<and> (\<forall>r\<in>set rs. observedAtMillis r \<le> observedAtMillis c)"
proof (induction rs rule: rev_induct)
  case Nil
  then show ?case by simp
next
  case (snoc r rs)
  show ?case
  proof (cases "rs = []")
    case True
    then show ?thesis by (cases old) (auto simp add: lww_simps)
  next
    case False
    with snoc obtain c where c: "foldl lww old rs = Some c"
      "\<forall>x\<in>set rs. observedAtMillis x \<le> observedAtMillis c" by blast
    show ?thesis
    proof (cases "observedAtMillis c < observedAtMillis r")
      case True
      with c show ?thesis by (auto simp add: lww_simps)
    next
      case False
      with c show ?thesis by (auto simp add: lww_simps)
    qed
  qed
qed

text \<open>Writes that are not newer than the stored record change nothing.\<close>

lemma foldl_lww_stale:
  "\<forall>r\<in>set rs. observedAtMillis r \<le> observedAtMillis c \<Longrightarrow> foldl lww (Some c) rs = Some c"
  by (induction rs) (simp_all add: lww_simps)

lemma foldl_lww_idem: "foldl lww (foldl lww old rs) rs = foldl lww old rs"
proof (cases "rs = []")
  case True
  then show ?thesis by simp
next
  case False
  from foldl_lww_newest [OF False, of old] obtain c where "foldl lww old rs = Some c"
    "\<forall>r\<in>set rs. observedAtMillis r \<le> observedAtMillis c" by blast
  then show ?thesis by (simp add: foldl_lww_stale)
qed

lemma fold_write_record_idem:
  "fold write_record rs (fold write_record rs c) = fold write_record rs c"
  by (rule ext) (simp add: fold_write_record_at foldl_lww_idem)

lemma fold_publish_caches:
  "fst (fold (publish acked targets) rs st) =
     (\<lambda>reg. if reg \<in> set targets then fold write_record (filter acked rs) (fst st reg)
             else fst st reg)"
  by (induction rs arbitrary: st) (auto simp add: publish_def)

text \<open>
  Claim C9. With last-write-wins by record timestamp at the caches, applying a correction
  plan a second time leaves every regional cache as the first application left it,
  whichever records the channel acknowledges.
\<close>

theorem apply_plan_idempotent:
  "fst (apply_plan acked plan (fst (apply_plan acked plan st)))
     = fst (apply_plan acked plan st)"
  by (auto simp add: apply_plan_def fold_publish_caches fold_write_record_idem)

end
